theory Spec2Isabelle
  imports
    Main
    "HOL-Library.Sublist"
    "HOL-Library.AList"
    "HOL-Library.Char_ord"
    "HOL-Library.List_Lexorder"
begin

section \<open>Values, exceptions and strings\<close>

text \<open>
  CLISend is written in Python. A Python \<open>str\<close> is modelled by its UTF-8 text as an
  Isabelle \<open>string\<close> (a list of 8-bit characters), a \<open>bytes\<close> object by the list of
  its bytes. On UTF-8 text \<open>lstrip("/")\<close>, \<open>split("/")\<close>, \<open>startswith\<close> and
  the order of \<open>sorted\<close> agree with Python's, which works on code points.
  Floating point numbers are not represented.
\<close>

type_synonym bytes = string

datatype pyval =
    PNone
  | PBool bool
  | PInt int
  | PStr string
  | PBytes bytes
  | PList "pyval list"
  | PDict "(string \<times> pyval) list"

text \<open>A Python \<open>dict\<close> with string keys: an association list in insertion order.\<close>

type_synonym pydict = "(string \<times> pyval) list"

text \<open>The exceptions that the modelled code can meet.\<close>

datatype exn =
    AttributeError
  | TypeError
  | ValueError
  | KeyError
  | StructError
  | JSONDecodeError
  | IncompleteReadError
  | PermissionError
  | FileNotFoundError
  | FileExistsError
  | IsADirectoryError
  | NotADirectoryError

text \<open>\<open>d.get(k, default)\<close>, \<open>k in d\<close> and \<open>d[k] = v\<close>.\<close>

definition dict_get :: "pydict \<Rightarrow> string \<Rightarrow> pyval \<Rightarrow> pyval" where
  "dict_get d k dflt = (case map_of d k of None \<Rightarrow> dflt | Some v \<Rightarrow> v)"


definition dict_set :: "pydict \<Rightarrow> string \<Rightarrow> pyval \<Rightarrow> pydict" where
  "dict_set d k v = AList.update k v d"

text \<open>
  \<open>str.upper\<close> on the ASCII letters. Outside ASCII the bytes are kept: Python maps some
  characters there to other characters, and none of the protocol's verbs contains a
  character that is not an ASCII capital letter.
\<close>

definition upper_char :: "char \<Rightarrow> char" where
  "upper_char c =
     (if CHR ''a'' \<le> c \<and> c \<le> CHR ''z'' then char_of (of_char c - (32::nat)) else c)"

definition upper :: "string \<Rightarrow> string" where
  "upper s = map upper_char s"

text \<open>\<open>s.lstrip("/")\<close>.\<close>

definition lstrip_slash :: "string \<Rightarrow> string" where
  "lstrip_slash s = dropWhile (\<lambda>c. c = CHR ''/'') s"

text \<open>\<open>str(n)\<close> for a natural number \<open>n\<close>, as the f-strings print \<open>len(data)\<close>.\<close>

fun digits_of :: "nat \<Rightarrow> nat \<Rightarrow> string" where
  "digits_of 0 n = []"
| "digits_of (Suc fuel) n =
     (if n < 10 then [char_of (48 + n)]
      else digits_of fuel (n div 10) @ [char_of (48 + n mod 10)])"

definition str_nat :: "nat \<Rightarrow> string" where
  "str_nat n = digits_of (Suc n) n"

section \<open>Paths (posixpath)\<close>

text \<open>\<open>os.path.join(a, b)\<close> for two arguments.\<close>

definition path_join :: "string \<Rightarrow> string \<Rightarrow> string" where
  "path_join a b =
     (if b \<noteq> [] \<and> hd b = CHR ''/'' then b
      else if a = [] \<or> last a = CHR ''/'' then a @ b
      else a @ ''/'' @ b)"

text \<open>\<open>s.split("/")\<close> and \<open>"/".join(comps)\<close>.\<close>

fun split_slash :: "string \<Rightarrow> string list" where
  "split_slash [] = [[]]"
| "split_slash (c # cs) =
     (if c = CHR ''/'' then [] # split_slash cs
      else (case split_slash cs of
              [] \<Rightarrow> [[c]]
            | w # ws \<Rightarrow> (c # w) # ws))"

fun join_slash :: "string list \<Rightarrow> string" where
  "join_slash [] = []"
| "join_slash [w] = w"
| "join_slash (w # ws) = w @ ''/'' @ join_slash ws"

text \<open>
  The loop of \<open>posixpath.normpath\<close> over the components: \<open>new_comps\<close> is kept in
  reverse, so that its last element is the head of the list.
\<close>

fun norm_comps :: "bool \<Rightarrow> string list \<Rightarrow> string list \<Rightarrow> string list" where
  "norm_comps initial new_comps [] = rev new_comps"
| "norm_comps initial new_comps (seg # comps) =
     (if seg = [] \<or> seg = ''.'' then norm_comps initial new_comps comps
      else if seg \<noteq> ''..'' \<or> (\<not> initial \<and> new_comps = [])
                \<or> (new_comps \<noteq> [] \<and> hd new_comps = ''..'')
        then norm_comps initial (seg # new_comps) comps
      else if new_comps \<noteq> [] then norm_comps initial (tl new_comps) comps
      else norm_comps initial new_comps comps)"

text \<open>
  The number of leading slashes that \<open>normpath\<close> keeps: one, or two when the path
  starts with exactly two.
\<close>

definition initial_slashes :: "string \<Rightarrow> nat" where
  "initial_slashes path =
     (if path = [] \<or> hd path \<noteq> CHR ''/'' then 0
      else if take 2 path = ''//'' \<and> take 3 path \<noteq> ''///'' then 2
      else 1)"

definition normpath :: "string \<Rightarrow> string" where
  "normpath path =
     (if path = [] then ''.''
      else
        let n = initial_slashes path;
            p = replicate n CHR ''/'' @ join_slash (norm_comps (0 < n) [] (split_slash path))
        in if p = [] then ''.'' else p)"

text \<open>
  \<open>os.path.dirname\<close>: everything up to the last slash, without trailing slashes unless
  it consists of slashes only.
\<close>

definition rstrip_slash :: "string \<Rightarrow> string" where
  "rstrip_slash s = rev (dropWhile (\<lambda>c. c = CHR ''/'') (rev s))"

definition dirname :: "string \<Rightarrow> string" where
  "dirname p =
     (let hd_part = rev (dropWhile (\<lambda>c. c \<noteq> CHR ''/'') (rev p))
      in if hd_part \<noteq> [] \<and> lstrip_slash hd_part \<noteq> []
         then rstrip_slash hd_part else hd_part)"

definition basename :: "string \<Rightarrow> string" where
  "basename p = rev (takeWhile (\<lambda>c. c \<noteq> CHR ''/'') (rev p))"

text \<open>
  The file system of the model has no symbolic links. There \<open>os.path.realpath\<close> of an
  absolute path only normalises it, a leading double slash included. The shared folder
  is absolute: the workers and the server pass it through \<open>os.path.abspath\<close> first.
\<close>

definition realpath :: "string \<Rightarrow> string" where
  "realpath p = normpath (CHR ''/'' # lstrip_slash p)"

text \<open>
  The first lines of every file operation of the workers:
  \<^verbatim>\<open>
    rel_path = rel_path.lstrip("/")
    target = os.path.normpath(os.path.join(shared_folder, rel_path))
    if not os.path.realpath(target).startswith(os.path.realpath(shared_folder)):
        return {"status": "error", "message": "Ruta no permitida"}
  \<close>
\<close>

definition target_of :: "string \<Rightarrow> string \<Rightarrow> string" where
  "target_of shared_folder rel_path = normpath (path_join shared_folder (lstrip_slash rel_path))"

definition sandbox_ok :: "string \<Rightarrow> string \<Rightarrow> bool" where
  "sandbox_ok shared_folder target = prefix (realpath shared_folder) (realpath target)"

text \<open>
  What the specification asks of the sandbox, for comparison: the canonical target is the
  canonical root or lies below it, component by component.
\<close>

definition path_comps :: "string \<Rightarrow> string list" where
  "path_comps p = filter (\<lambda>w. w \<noteq> []) (split_slash p)"

definition inside_root :: "string \<Rightarrow> string \<Rightarrow> bool" where
  "inside_root shared_folder target =
     prefix (path_comps (realpath shared_folder)) (path_comps (realpath target))"

section \<open>The file system\<close>

text \<open>
  The shared folder lives in a file system without symbolic links: a table from
  canonical absolute paths to nodes, and the paths on which the operating system refuses
  reading (\<open>no_read\<close>: opening a file for reading, listing a directory) or writing
  (\<open>no_write\<close>: overwriting a file, adding an entry to a directory or removing one from
  it). The root directory \<open>/\<close> always exists.
\<close>

datatype node = File bytes | Dir

record filesystem =
  nodes :: "(string \<times> node) list"
  no_read :: "string list"
  no_write :: "string list"

definition lookup :: "filesystem \<Rightarrow> string \<Rightarrow> node option" where
  "lookup fs p = (if p = ''/'' then Some Dir else map_of (nodes fs) p)"

definition path_exists :: "filesystem \<Rightarrow> string \<Rightarrow> bool" where
  "path_exists fs p = (lookup fs p \<noteq> None)"

definition isdir :: "filesystem \<Rightarrow> string \<Rightarrow> bool" where
  "isdir fs p = (lookup fs p = Some Dir)"

definition isfile :: "filesystem \<Rightarrow> string \<Rightarrow> bool" where
  "isfile fs p = (case lookup fs p of Some (File d) \<Rightarrow> True | _ \<Rightarrow> False)"

text \<open>\<open>os.path.getsize\<close>; the code asks it of regular files only.\<close>

definition getsize :: "filesystem \<Rightarrow> string \<Rightarrow> exn + nat" where
  "getsize fs p =
     (case lookup fs p of
        None \<Rightarrow> Inl FileNotFoundError
      | Some Dir \<Rightarrow> Inr 0
      | Some (File d) \<Rightarrow> Inr (length d))"

text \<open>\<open>open(p, "rb").read()\<close>.\<close>

definition read_bytes :: "filesystem \<Rightarrow> string \<Rightarrow> exn + bytes" where
  "read_bytes fs p =
     (case lookup fs p of
        None \<Rightarrow> Inl FileNotFoundError
      | Some Dir \<Rightarrow> Inl IsADirectoryError
      | Some (File d) \<Rightarrow> if p \<in> set (no_read fs) then Inl PermissionError else Inr d)"

text \<open>\<open>open(p, "wb")\<close> creates the file or truncates it; \<open>f.write(d)\<close> fills it.\<close>

definition put_file :: "filesystem \<Rightarrow> string \<Rightarrow> bytes \<Rightarrow> filesystem" where
  "put_file fs p d = fs\<lparr>nodes := AList.update p (File d) (nodes fs)\<rparr>"

definition open_wb :: "filesystem \<Rightarrow> string \<Rightarrow> exn + filesystem" where
  "open_wb fs p =
     (case lookup fs p of
        Some Dir \<Rightarrow> Inl IsADirectoryError
      | Some (File d) \<Rightarrow>
          if p \<in> set (no_write fs) then Inl PermissionError else Inr (put_file fs p [])
      | None \<Rightarrow>
          (case lookup fs (dirname p) of
             None \<Rightarrow> Inl FileNotFoundError
           | Some (File d) \<Rightarrow> Inl NotADirectoryError
           | Some Dir \<Rightarrow>
               if dirname p \<in> set (no_write fs) then Inl PermissionError
               else Inr (put_file fs p [])))"

text \<open>\<open>os.remove\<close>.\<close>

definition remove_file :: "filesystem \<Rightarrow> string \<Rightarrow> exn + filesystem" where
  "remove_file fs p =
     (case lookup fs p of
        None \<Rightarrow> Inl FileNotFoundError
      | Some Dir \<Rightarrow> Inl IsADirectoryError
      | Some (File d) \<Rightarrow>
          if dirname p \<in> set (no_write fs) then Inl PermissionError
          else Inr (fs\<lparr>nodes := AList.delete p (nodes fs)\<rparr>))"

text \<open>
  \<open>shutil.rmtree\<close> removes a directory and everything below it. A refusal is
  simplified: the model then removes nothing, where \<open>rmtree\<close> may have removed a part.
\<close>

definition below :: "string \<Rightarrow> string \<Rightarrow> bool" where
  "below d p = (if d = ''/'' then prefix ''/'' p \<and> p \<noteq> ''/'' else prefix (d @ ''/'') p)"

definition rmtree :: "filesystem \<Rightarrow> string \<Rightarrow> exn + filesystem" where
  "rmtree fs d =
     (case lookup fs d of
        None \<Rightarrow> Inl FileNotFoundError
      | Some (File x) \<Rightarrow> Inl NotADirectoryError
      | Some Dir \<Rightarrow>
          if dirname d \<in> set (no_write fs)
             \<or> list_ex (\<lambda>p. (p = d \<or> below d p) \<and> isdir fs p) (no_write fs)
          then Inl PermissionError
          else Inr (fs\<lparr>nodes := filter (\<lambda>(p, n). p \<noteq> d \<and> \<not> below d p) (nodes fs)\<rparr>))"

text \<open>\<open>os.mkdir\<close>.\<close>

definition mkdir :: "filesystem \<Rightarrow> string \<Rightarrow> exn + filesystem" where
  "mkdir fs p =
     (if path_exists fs p then Inl FileExistsError
      else case lookup fs (dirname p) of
             None \<Rightarrow> Inl FileNotFoundError
           | Some (File d) \<Rightarrow> Inl NotADirectoryError
           | Some Dir \<Rightarrow>
               if dirname p \<in> set (no_write fs) then Inl PermissionError
               else Inr (fs\<lparr>nodes := AList.update p Dir (nodes fs)\<rparr>))"

text \<open>
  \<open>os.listdir(d)\<close>: the names of the entries of a directory, the nodes whose path is
  \<open>d\<close> joined with one name.
\<close>

definition listdir :: "filesystem \<Rightarrow> string \<Rightarrow> exn + string list" where
  "listdir fs d =
     (case lookup fs d of
        None \<Rightarrow> Inl FileNotFoundError
      | Some (File x) \<Rightarrow> Inl NotADirectoryError
      | Some Dir \<Rightarrow>
          if d \<in> set (no_read fs) then Inl PermissionError
          else Inr (map basename
                 (filter (\<lambda>p. basename p \<noteq> [] \<and> p = path_join d (basename p))
                    (remdups (map fst (nodes fs))))))"

text \<open>
  \<open>os.makedirs(name, exist_ok=True)\<close>:
  \<^verbatim>\<open>
    head, tail = path.split(name)
    if not tail:
        head, tail = path.split(head)
    if head and tail and not path.exists(head):
        try:
            makedirs(head, exist_ok=exist_ok)
        except FileExistsError:
            pass
        if tail == curdir:
            return
    try:
        mkdir(name, mode)
    except OSError:
        if not exist_ok or not path.isdir(name):
            raise
  \<close>
  The directories made before an exception stay, so the file system is returned in
  both cases.
\<close>

lemma length_dirname_le: "length (dirname p) \<le> length p"
proof -
  have a: "length (dropWhile P xs) \<le> length xs" for P and xs :: string
    by (induction xs) auto
  have "length (rev (dropWhile (\<lambda>c. c \<noteq> CHR ''/'') (rev p))) \<le> length p"
    using a [of "\<lambda>c. c \<noteq> CHR ''/''" "rev p"] by simp
  moreover have "length (rstrip_slash q) \<le> length q" for q
    using a [of "\<lambda>c. c = CHR ''/''" "rev q"] by (simp add: rstrip_slash_def)
  ultimately show ?thesis
    unfolding dirname_def Let_def
    by (smt (verit) le_trans)
qed

lemma length_dirname_less: "basename p \<noteq> [] \<Longrightarrow> length (dirname p) < length p"
proof -
  assume b: "basename p \<noteq> []"
  have a: "length (dropWhile P xs) \<le> length xs" for P and xs :: string
    by (induction xs) auto
  have split: "length (takeWhile P xs) + length (dropWhile P xs) = length xs"
    for P and xs :: string
    by (induction xs) auto
  have "0 < length (takeWhile (\<lambda>c. c \<noteq> CHR ''/'') (rev p))"
    using b by (simp add: basename_def)
  then have "length (dropWhile (\<lambda>c. c \<noteq> CHR ''/'') (rev p)) < length (rev p)"
    using split [of "\<lambda>c. c \<noteq> CHR ''/''" "rev p"] by linarith
  then have "length (rev (dropWhile (\<lambda>c. c \<noteq> CHR ''/'') (rev p))) < length p"
    by simp
  moreover have "length (rstrip_slash q) \<le> length q" for q
    using a [of "\<lambda>c. c = CHR ''/''" "rev q"] by (simp add: rstrip_slash_def)
  ultimately show ?thesis
    unfolding dirname_def Let_def
    by (smt (verit) le_less_trans)
qed

function makedirs :: "filesystem \<Rightarrow> string \<Rightarrow> exn option \<times> filesystem" where
  "makedirs fs name =
     (let h0 = dirname name; t0 = basename name;
          h = (if t0 = [] then dirname h0 else h0);
          t = (if t0 = [] then basename h0 else t0);
          recurse = (h \<noteq> [] \<and> t \<noteq> [] \<and> \<not> path_exists fs h);
          inner = (if recurse then makedirs fs h else (None, fs));
          raised = (if fst inner = Some FileExistsError then None else fst inner);
          fs1 = snd inner
      in case raised of
           Some e \<Rightarrow> (Some e, fs1)
         | None \<Rightarrow>
             if recurse \<and> t = ''.'' then (None, fs1)
             else (case mkdir fs1 name of
                     Inr fs2 \<Rightarrow> (None, fs2)
                   | Inl e \<Rightarrow> if isdir fs1 name then (None, fs1) else (Some e, fs1)))"
  by pat_completeness auto
termination
proof (relation "measure (\<lambda>(fs, name). length name)")
  show "wf (measure (\<lambda>(fs, name). length name))" by simp
next
  fix fs :: filesystem and name h0 t0 h t :: string and recurse :: bool
  assume h0: "h0 = dirname name" and t0: "t0 = basename name"
    and h: "h = (if t0 = [] then dirname h0 else h0)"
    and t: "t = (if t0 = [] then basename h0 else t0)"
    and r: "recurse = (h \<noteq> [] \<and> t \<noteq> [] \<and> \<not> path_exists fs h)" and "recurse"
  then have tne: "t \<noteq> []" by simp
  have "length h < length name"
  proof (cases "t0 = []")
    case True
    then have "basename h0 \<noteq> []" using t tne by simp
    then have "length (dirname h0) < length h0" by (rule length_dirname_less)
    moreover have "length h0 \<le> length name" using h0 length_dirname_le by simp
    ultimately show ?thesis using h True by simp
  next
    case False
    then show ?thesis using h h0 t0 length_dirname_less by simp
  qed
  then show "((fs, h), (fs, name)) \<in> measure (\<lambda>(fs, name). length name)" by simp
qed

declare makedirs.simps [simp del]

section \<open>The workers\<close>

text \<open>
  The text \<open>str(e)\<close> of an exception is represented by the name of its class; Python's
  text depends on the platform.
\<close>

fun exn_text :: "exn \<Rightarrow> string" where
  "exn_text AttributeError = ''AttributeError''"
| "exn_text TypeError = ''TypeError''"
| "exn_text ValueError = ''ValueError''"
| "exn_text KeyError = ''KeyError''"
| "exn_text StructError = ''struct.error''"
| "exn_text JSONDecodeError = ''JSONDecodeError''"
| "exn_text IncompleteReadError = ''IncompleteReadError''"
| "exn_text PermissionError = ''PermissionError''"
| "exn_text FileNotFoundError = ''FileNotFoundError''"
| "exn_text FileExistsError = ''FileExistsError''"
| "exn_text IsADirectoryError = ''IsADirectoryError''"
| "exn_text NotADirectoryError = ''NotADirectoryError''"

definition error_response :: "string \<Rightarrow> pydict" where
  "error_response msg = [(''status'', PStr ''error''), (''message'', PStr msg)]"

text \<open>
  The handlers of the file operations: \<open>except PermissionError\<close> answers
  \<open>Permiso denegado\<close> with the path, \<open>except Exception as e\<close> answers \<open>str(e)\<close>.
\<close>

definition handle_exn :: "string \<Rightarrow> exn \<Rightarrow> pydict" where
  "handle_exn rel_path e =
     (if e = PermissionError then error_response (''Permiso denegado: '' @ rel_path)
      else error_response (exn_text e))"

text \<open>
  \<open>rel_path.lstrip("/")\<close> on whatever the request holds under \<open>path\<close>: only a
  \<open>str\<close> has the method with a \<open>str\<close> argument.
\<close>

definition lstrip_path :: "pyval \<Rightarrow> exn + string" where
  "lstrip_path v =
     (case v of
        PStr s \<Rightarrow> Inr (lstrip_slash s)
      | PBytes b \<Rightarrow> Inl TypeError
      | _ \<Rightarrow> Inl AttributeError)"

subsection \<open>workers/reader.py\<close>

fun map_exn :: "('a \<Rightarrow> exn + 'b) \<Rightarrow> 'a list \<Rightarrow> exn + 'b list" where
  "map_exn f [] = Inr []"
| "map_exn f (x # xs) =
     (case f x of
        Inl e \<Rightarrow> Inl e
      | Inr y \<Rightarrow> (case map_exn f xs of Inl e \<Rightarrow> Inl e | Inr ys \<Rightarrow> Inr (y # ys)))"

definition list_entry :: "filesystem \<Rightarrow> string \<Rightarrow> string \<Rightarrow> exn + pyval" where
  "list_entry fs target name =
     (let full = path_join target name in
      case (if isfile fs full then getsize fs full else Inr 0) of
        Inl e \<Rightarrow> Inl e
      | Inr sz \<Rightarrow>
          Inr (PDict [(''name'', PStr name), (''is_dir'', PBool (isdir fs full)),
                      (''size'', PInt (int sz))]))"

text \<open>\<open>if rel_path in ("/", "", "."): rel_path = ""\<close>.\<close>

definition list_rel :: "pyval \<Rightarrow> pyval" where
  "list_rel rel_path0 =
     (if rel_path0 = PStr ''/'' \<or> rel_path0 = PStr [] \<or> rel_path0 = PStr ''.''
      then PStr [] else rel_path0)"

definition list_files :: "filesystem \<Rightarrow> string \<Rightarrow> pyval \<Rightarrow> exn + pydict" where
  "list_files fs shared_folder rel_path0 =
     (case lstrip_path (list_rel rel_path0) of
        Inl e \<Rightarrow> Inl e
      | Inr rel_path \<Rightarrow>
          let target = normpath (path_join shared_folder rel_path) in
          if \<not> sandbox_ok shared_folder target then Inr (error_response ''Ruta no permitida'')
          else if \<not> isdir fs target then
            Inr (error_response
                  (''Directorio no encontrado: '' @ (if rel_path = [] then ''/'' else rel_path)))
          else
            (case listdir fs target of
               Inl e \<Rightarrow> Inl e
             | Inr names \<Rightarrow>
                 (case map_exn (list_entry fs target) (sort names) of
                    Inl e \<Rightarrow> Inl e
                  | Inr entries \<Rightarrow> Inr [(''status'', PStr ''ok''), (''entries'', PList entries)])))"

definition read_file :: "filesystem \<Rightarrow> string \<Rightarrow> pyval \<Rightarrow> exn + pydict" where
  "read_file fs shared_folder rel_path0 =
     (case lstrip_path rel_path0 of
        Inl e \<Rightarrow> Inl e
      | Inr rel_path \<Rightarrow>
          let target = normpath (path_join shared_folder rel_path) in
          if \<not> sandbox_ok shared_folder target then Inr (error_response ''Ruta no permitida'')
          else if \<not> isfile fs target then
            Inr (error_response (''Archivo no encontrado: '' @ rel_path))
          else
            (case getsize fs target of
               Inl e \<Rightarrow> Inr (handle_exn rel_path e)
             | Inr sz \<Rightarrow>
                 (case read_bytes fs target of
                    Inl e \<Rightarrow> Inr (handle_exn rel_path e)
                  | Inr data \<Rightarrow>
                      Inr [(''status'', PStr ''ok''), (''size'', PInt (int sz)),
                           (''data'', PBytes data), (''path'', PStr rel_path)])))"

text \<open>
  What one turn of a worker's loop does with the item it takes from its queue: it stops
  at \<open>None\<close>, it dies of an exception raised outside the inner \<open>try\<close>, or it puts one
  response on the response queue.
\<close>

datatype turn = Stopped | Died exn | Replied pydict

text \<open>
  \<open>request.get("action", "").upper()\<close>: \<open>str\<close> and \<open>bytes\<close> have the method, the
  other values raise AttributeError.
\<close>

definition upper_action :: "pydict \<Rightarrow> exn + pyval" where
  "upper_action request =
     (case dict_get request ''action'' (PStr []) of
        PStr a \<Rightarrow> Inr (PStr (upper a))
      | PBytes b \<Rightarrow> Inr (PBytes (upper b))
      | _ \<Rightarrow> Inl AttributeError)"

text \<open>\<open>repr\<close> of a \<open>bytes\<close> object, which an f-string prints for it.\<close>

definition hex2 :: "char \<Rightarrow> string" where
  "hex2 c = [''0123456789abcdef'' ! (of_char c div 16), ''0123456789abcdef'' ! (of_char c mod 16)]"

definition repr_byte :: "char \<Rightarrow> char \<Rightarrow> string" where
  "repr_byte quote c =
     (if c = quote \<or> c = CHR 0x5C then [CHR 0x5C, c]
      else if c = CHR 0x09 then [CHR 0x5C, CHR ''t'']
      else if c = CHR 0x0A then [CHR 0x5C, CHR ''n'']
      else if c = CHR 0x0D then [CHR 0x5C, CHR ''r'']
      else if c < CHR 0x20 \<or> CHR 0x7F \<le> c then [CHR 0x5C, CHR ''x''] @ hex2 c
      else [c])"

definition repr_bytes :: "bytes \<Rightarrow> string" where
  "repr_bytes b =
     (let quote = (if CHR 0x27 \<in> set b \<and> CHR 0x22 \<notin> set b then CHR 0x22 else CHR 0x27)
      in ''b'' @ [quote] @ concat (map (repr_byte quote) b) @ [quote])"

definition action_text :: "pyval \<Rightarrow> string" where
  "action_text action = (case action of PStr a \<Rightarrow> a | PBytes b \<Rightarrow> repr_bytes b | _ \<Rightarrow> [])"

definition unknown_action :: "pyval \<Rightarrow> pydict" where
  "unknown_action action =
     error_response (''Acci'' @ [CHR 0xC3, CHR 0xB3] @ ''n desconocida: '' @ action_text action)"

definition internal_error :: "exn \<Rightarrow> pydict" where
  "internal_error e = error_response (''Error interno: '' @ exn_text e)"

text \<open>The end of a turn: \<open>result["id"] = req_id; result["action"] = action\<close>.\<close>

definition stamp :: "pydict \<Rightarrow> pyval \<Rightarrow> pyval \<Rightarrow> pydict" where
  "stamp result req_id action = dict_set (dict_set result ''id'' req_id) ''action'' action"

text \<open>The body of the inner \<open>try\<close> of the reader: the dispatch on the action.\<close>

definition reader_try :: "filesystem \<Rightarrow> string \<Rightarrow> pyval \<Rightarrow> pyval \<Rightarrow> exn + pydict" where
  "reader_try fs shared_folder action path =
     (if action = PStr ''LIST'' then list_files fs shared_folder path
      else if action = PStr ''DOWNLOAD'' then read_file fs shared_folder path
      else Inr (unknown_action action))"

definition reader_turn :: "filesystem \<Rightarrow> string \<Rightarrow> pydict option \<Rightarrow> turn" where
  "reader_turn fs shared_folder item =
     (case item of
        None \<Rightarrow> Stopped
      | Some request \<Rightarrow>
          let req_id = dict_get request ''id'' PNone in
          (case upper_action request of
             Inl e \<Rightarrow> Died e
           | Inr action \<Rightarrow>
               let path = dict_get request ''path'' (PStr ''/'');
                   result = (case reader_try fs shared_folder action path of
                               Inl e \<Rightarrow> internal_error e
                             | Inr r \<Rightarrow> r)
               in Replied (stamp result req_id action)))"


subsection \<open>workers/writer.py\<close>

text \<open>
  The operations of the writer return their response, or the exception they let through,
  together with the file system they leave. In \<open>_save_file\<close> the call of
  \<open>os.makedirs\<close> stands before the \<open>try\<close>; \<open>open(target, "wb")\<close> has created or
  emptied the file when \<open>f.write(data)\<close> refuses a value that is not \<open>bytes\<close>.
\<close>

definition save_file ::
  "filesystem \<Rightarrow> string \<Rightarrow> pyval \<Rightarrow> pyval \<Rightarrow> (exn + pydict) \<times> filesystem" where
  "save_file fs shared_folder rel_path0 data =
     (case lstrip_path rel_path0 of
        Inl e \<Rightarrow> (Inl e, fs)
      | Inr rel_path \<Rightarrow>
          let target = normpath (path_join shared_folder rel_path) in
          if \<not> sandbox_ok shared_folder target
          then (Inr (error_response ''Ruta no permitida''), fs)
          else
            let target_dir = dirname target;
                (raised, fs1) = (if target_dir \<noteq> [] then makedirs fs target_dir else (None, fs))
            in (case raised of
                  Some e \<Rightarrow> (Inl e, fs1)
                | None \<Rightarrow>
                    (case open_wb fs1 target of
                       Inl e \<Rightarrow> (Inr (handle_exn rel_path e), fs1)
                     | Inr fs2 \<Rightarrow>
                         (case data of
                            PBytes d \<Rightarrow>
                              (Inr [(''status'', PStr ''ok''),
                                    (''message'', PStr (''Archivo guardado: '' @ rel_path @ '' (''
                                       @ str_nat (length d) @ '' bytes)''))],
                               put_file fs2 target d)
                          | _ \<Rightarrow> (Inr (handle_exn rel_path TypeError), fs2)))))"

definition delete_file ::
  "filesystem \<Rightarrow> string \<Rightarrow> pyval \<Rightarrow> (exn + pydict) \<times> filesystem" where
  "delete_file fs shared_folder rel_path0 =
     (case lstrip_path rel_path0 of
        Inl e \<Rightarrow> (Inl e, fs)
      | Inr rel_path \<Rightarrow>
          let target = normpath (path_join shared_folder rel_path) in
          if \<not> sandbox_ok shared_folder target
          then (Inr (error_response ''Ruta no permitida''), fs)
          else if \<not> path_exists fs target
          then (Inr (error_response (''Archivo no encontrado: '' @ rel_path)), fs)
          else if isdir fs target then
            (case rmtree fs target of
               Inl e \<Rightarrow> (Inr (handle_exn rel_path e), fs)
             | Inr fs1 \<Rightarrow>
                 (Inr [(''status'', PStr ''ok''),
                       (''message'', PStr (''Directorio eliminado: '' @ rel_path))], fs1))
          else
            (case remove_file fs target of
               Inl e \<Rightarrow> (Inr (handle_exn rel_path e), fs)
             | Inr fs1 \<Rightarrow>
                 (Inr [(''status'', PStr ''ok''),
                       (''message'', PStr (''Archivo eliminado: '' @ rel_path))], fs1)))"

definition cut_file ::
  "filesystem \<Rightarrow> string \<Rightarrow> pyval \<Rightarrow> (exn + pydict) \<times> filesystem" where
  "cut_file fs shared_folder rel_path0 =
     (case lstrip_path rel_path0 of
        Inl e \<Rightarrow> (Inl e, fs)
      | Inr rel_path \<Rightarrow>
          let target = normpath (path_join shared_folder rel_path) in
          if \<not> sandbox_ok shared_folder target
          then (Inr (error_response ''Ruta no permitida''), fs)
          else if \<not> isfile fs target
          then (Inr (error_response (''Archivo no encontrado: '' @ rel_path)), fs)
          else
            (case read_bytes fs target of
               Inl e \<Rightarrow> (Inr (handle_exn rel_path e), fs)
             | Inr data \<Rightarrow>
                 let sz = length data in
                 (case remove_file fs target of
                    Inl e \<Rightarrow> (Inr (handle_exn rel_path e), fs)
                  | Inr fs1 \<Rightarrow>
                      (Inr [(''status'', PStr ''ok''),
                            (''message'', PStr (''Archivo cortado: '' @ rel_path @ '' (''
                               @ str_nat sz @ '' bytes)'')),
                            (''data'', PBytes data), (''size'', PInt (int sz)),
                            (''path'', PStr rel_path)], fs1))))"

text \<open>The body of the inner \<open>try\<close> of the writer.\<close>

definition writer_try ::
  "filesystem \<Rightarrow> string \<Rightarrow> pyval \<Rightarrow> pydict \<Rightarrow> (exn + pydict) \<times> filesystem" where
  "writer_try fs shared_folder action request =
     (let path = dict_get request ''path'' (PStr []) in
      if action = PStr ''UPLOAD''
      then save_file fs shared_folder path (dict_get request ''data'' (PBytes []))
      else if action = PStr ''DELETE'' then delete_file fs shared_folder path
      else if action = PStr ''CUT'' then cut_file fs shared_folder path
      else (Inr (unknown_action action), fs))"

definition writer_turn :: "filesystem \<Rightarrow> string \<Rightarrow> pydict option \<Rightarrow> turn \<times> filesystem" where
  "writer_turn fs shared_folder item =
     (case item of
        None \<Rightarrow> (Stopped, fs)
      | Some request \<Rightarrow>
          let req_id = dict_get request ''id'' PNone in
          (case upper_action request of
             Inl e \<Rightarrow> (Died e, fs)
           | Inr action \<Rightarrow>
               (case writer_try fs shared_folder action request of
                  (attempt, fs1) \<Rightarrow>
                    let result = (case attempt of Inl e \<Rightarrow> internal_error e | Inr r \<Rightarrow> r)
                    in (Replied (stamp result req_id action), fs1))))"


section \<open>The wire codec (protocol.py)\<close>

text \<open>
  The functions of Python's library that the protocol calls and this theory takes as
  given: \<open>json.dumps(v).encode("utf-8")\<close>, \<open>json.loads(b.decode("utf-8"))\<close> and
  \<open>str(v)\<close> as an f-string prints a value.
\<close>

record pylib =
  dumps :: "pyval \<Rightarrow> exn + bytes"
  loads :: "bytes \<Rightarrow> exn + pyval"
  str_of :: "pyval \<Rightarrow> string"

text \<open>\<open>struct.pack("!I", n)\<close> and \<open>struct.unpack("!I", b)[0]\<close>.\<close>

definition be32 :: "nat \<Rightarrow> bytes" where
  "be32 n = [char_of (n div 2 ^ 24), char_of (n div 2 ^ 16), char_of (n div 2 ^ 8), char_of n]"

definition pack_u32 :: "nat \<Rightarrow> exn + bytes" where
  "pack_u32 n = (if n < 2 ^ 32 then Inr (be32 n) else Inl StructError)"

definition unpack_u32 :: "bytes \<Rightarrow> exn + nat" where
  "unpack_u32 b =
     (case b of
        [b3, b2, b1, b0] \<Rightarrow>
          Inr (of_char b3 * 2 ^ 24 + of_char b2 * 2 ^ 16 + of_char b1 * 2 ^ 8 + of_char b0)
      | _ \<Rightarrow> Inl StructError)"

text \<open>
  \<open>send_message\<close> and \<open>async_send_message\<close> build the same bytes and write them in
  one piece: the result is what goes on the wire, or the exception.
\<close>

definition send_message :: "pylib \<Rightarrow> pyval \<Rightarrow> exn + bytes" where
  "send_message lib msg =
     (case dumps lib msg of
        Inl e \<Rightarrow> Inl e
      | Inr payload \<Rightarrow>
          (case pack_u32 (length payload) of
             Inl e \<Rightarrow> Inl e
           | Inr header \<Rightarrow> Inr (header @ payload)))"

text \<open>
  The server reads from an \<open>asyncio.StreamReader\<close>. The stream is the bytes that the
  peer sends before it closes. \<open>async_recv_exact\<close> is \<open>readexactly\<close> with
  IncompleteReadError turned into \<open>None\<close>; the bytes of a short read are lost.
\<close>

definition async_recv_exact :: "bytes \<Rightarrow> nat \<Rightarrow> bytes option \<times> bytes" where
  "async_recv_exact stream n =
     (if n \<le> length stream then (Some (take n stream), drop n stream) else (None, []))"

text \<open>
  \<open>async_recv_message\<close>. Python's \<open>None\<close> is the value \<open>PNone\<close>: the function
  returns it for a closed stream, and it returns what \<open>json.loads\<close> returns.
\<close>

definition async_recv_message :: "pylib \<Rightarrow> bytes \<Rightarrow> (exn + pyval) \<times> bytes" where
  "async_recv_message lib stream =
     (case async_recv_exact stream 4 of
        (None, rest) \<Rightarrow> (Inr PNone, rest)
      | (Some raw_header, rest) \<Rightarrow>
          if raw_header = [] then (Inr PNone, rest)
          else
            (case unpack_u32 raw_header of
               Inl e \<Rightarrow> (Inl e, rest)
             | Inr msg_len \<Rightarrow>
                 (case async_recv_exact rest msg_len of
                    (None, rest') \<Rightarrow> (Inr PNone, rest')
                  | (Some raw_payload, rest') \<Rightarrow>
                      if raw_payload = [] then (Inr PNone, rest')
                      else (loads lib raw_payload, rest'))))"






section \<open>The server (server.py)\<close>

text \<open>
  One client session. The state is what the session can observe: the bytes the client
  still sends before it closes, the bytes written to the client, the shared folder's
  file system, and a counter that stands for the fresh \<open>uuid4\<close> of each request.
  \<open>send_to_worker\<close> puts a request on a worker's queue and waits for the response
  with the same id; for one session that is one turn of the worker. The audit log
  (\<open>log_event\<close>) and the table of clients do not act on the session and are left out.
\<close>

record session =
  inbound :: bytes
  outbound :: bytes
  disk :: filesystem
  next_id :: nat

text \<open>
  How a step of the session ends: the loop goes on, the connection is closed (an
  exception reached the handlers around the loop), or the session waits for a worker
  that has died.
\<close>

datatype outcome = Continue | Closed | Hung

definition send_to_reader :: "string \<Rightarrow> session \<Rightarrow> pydict \<Rightarrow> pydict option \<times> session" where
  "send_to_reader shared_folder st request =
     (let request' = dict_set request ''id'' (PStr (str_nat (next_id st)));
          st' = st\<lparr>next_id := Suc (next_id st)\<rparr>
      in case reader_turn (disk st) shared_folder (Some request') of
           Replied result \<Rightarrow> (Some result, st')
         | _ \<Rightarrow> (None, st'))"

definition send_to_writer :: "string \<Rightarrow> session \<Rightarrow> pydict \<Rightarrow> pydict option \<times> session" where
  "send_to_writer shared_folder st request =
     (let request' = dict_set request ''id'' (PStr (str_nat (next_id st)));
          st' = st\<lparr>next_id := Suc (next_id st)\<rparr>
      in case writer_turn (disk st) shared_folder (Some request') of
           (Replied result, fs') \<Rightarrow> (Some result, st'\<lparr>disk := fs'\<rparr>)
         | (_, fs') \<Rightarrow> (None, st'\<lparr>disk := fs'\<rparr>))"

text \<open>\<open>await async_send_message(writer, msg)\<close> and \<open>writer.write(data)\<close>.\<close>

definition reply :: "pylib \<Rightarrow> session \<Rightarrow> pydict \<Rightarrow> exn + session" where
  "reply lib st msg =
     (case send_message lib (PDict msg) of
        Inl e \<Rightarrow> Inl e
      | Inr frame \<Rightarrow> Inr (st\<lparr>outbound := outbound st @ frame\<rparr>))"

definition write_raw :: "session \<Rightarrow> pyval \<Rightarrow> exn + session" where
  "write_raw st data =
     (case data of
        PBytes d \<Rightarrow> Inr (st\<lparr>outbound := outbound st @ d\<rparr>)
      | _ \<Rightarrow> Inl TypeError)"

text \<open>\<open>result["key"]\<close>.\<close>

definition dict_item :: "pydict \<Rightarrow> string \<Rightarrow> exn + pyval" where
  "dict_item d k = (case map_of d k of None \<Rightarrow> Inl KeyError | Some v \<Rightarrow> Inr v)"

text \<open>
  \<open>await reader.readexactly(file_size)\<close> on what the message holds under \<open>size\<close>: an
  \<open>int\<close> (a \<open>bool\<close> is one), not negative, and no more than the client sends.
\<close>

definition readexactly :: "bytes \<Rightarrow> pyval \<Rightarrow> (exn + bytes) \<times> bytes" where
  "readexactly stream n =
     (case (case n of PInt k \<Rightarrow> Some k | PBool b \<Rightarrow> Some (if b then 1 else 0) | _ \<Rightarrow> None) of
        None \<Rightarrow> (Inl TypeError, stream)
      | Some k \<Rightarrow>
          if k < 0 then (Inl ValueError, stream)
          else if nat k \<le> length stream then (Inr (take (nat k) stream), drop (nat k) stream)
          else (Inl IncompleteReadError, []))"

text \<open>The branches of the command loop that answer with a status and a text.\<close>

definition finish_simple :: "pylib \<Rightarrow> string \<Rightarrow> pydict option \<times> session \<Rightarrow> outcome \<times> session" where
  "finish_simple lib verb answer =
     (case answer of
        (None, st) \<Rightarrow> (Hung, st)
      | (Some result, st) \<Rightarrow>
          (case dict_item result ''status'' of
             Inl e \<Rightarrow> (Closed, st)
           | Inr status \<Rightarrow>
               (case reply lib st [(''status'', status), (''action'', PStr verb),
                                   (''message'', dict_get result ''message'' (PStr []))] of
                  Inl e \<Rightarrow> (Closed, st)
                | Inr st' \<Rightarrow> (Continue, st'))))"

text \<open>The branches for DOWNLOAD and CUT, which send the file after the control message.\<close>

definition finish_transfer :: "pylib \<Rightarrow> string \<Rightarrow> pydict option \<times> session \<Rightarrow> outcome \<times> session" where
  "finish_transfer lib verb answer =
     (case answer of
        (None, st) \<Rightarrow> (Hung, st)
      | (Some result, st) \<Rightarrow>
          (case dict_item result ''status'' of
             Inl e \<Rightarrow> (Closed, st)
           | Inr status \<Rightarrow>
               if status = PStr ''ok'' then
                 (case dict_item result ''path'' of
                    Inl e \<Rightarrow> (Closed, st)
                  | Inr path \<Rightarrow>
                      (case dict_item result ''size'' of
                         Inl e \<Rightarrow> (Closed, st)
                       | Inr sz \<Rightarrow>
                           (case reply lib st [(''status'', PStr ''ok''), (''action'', PStr verb),
                                               (''path'', path), (''size'', sz)] of
                              Inl e \<Rightarrow> (Closed, st)
                            | Inr st1 \<Rightarrow>
                                (case dict_item result ''data'' of
                                   Inl e \<Rightarrow> (Closed, st1)
                                 | Inr data \<Rightarrow>
                                     (case write_raw st1 data of
                                        Inl e \<Rightarrow> (Closed, st1)
                                      | Inr st2 \<Rightarrow> (Continue, st2))))))
               else
                 (case reply lib st [(''status'', PStr ''error''), (''action'', PStr verb),
                                     (''message'',
                                      dict_get result ''message'' (PStr ''Error desc''))] of
                    Inl e \<Rightarrow> (Closed, st)
                  | Inr st' \<Rightarrow> (Continue, st'))))"

text \<open>
  The body of the command loop for one message \<open>msg\<close> that is not \<open>None\<close>. Every
  exception in it is caught around the loop, and the \<open>finally\<close> closes the connection.
\<close>

definition handle_command :: "pylib \<Rightarrow> string \<Rightarrow> pyval \<Rightarrow> session \<Rightarrow> outcome \<times> session" where
  "handle_command lib shared_folder msg st =
     (case msg of
        PDict m \<Rightarrow>
          (case upper_action m of
             Inl e \<Rightarrow> (Closed, st)
           | Inr action \<Rightarrow>
               let path = dict_get m ''path'' (PStr ''/'') in
               if action = PStr ''LIST'' then
                 (case send_to_reader shared_folder st [(''action'', PStr ''LIST''), (''path'', path)] of
                    (None, st1) \<Rightarrow> (Hung, st1)
                  | (Some result, st1) \<Rightarrow>
                      (case dict_item result ''status'' of
                         Inl e \<Rightarrow> (Closed, st1)
                       | Inr status \<Rightarrow>
                           (case reply lib st1
                                   [(''status'', status), (''action'', PStr ''LIST''),
                                    (''entries'', dict_get result ''entries'' (PList [])),
                                    (''message'', dict_get result ''message'' (PStr []))] of
                              Inl e \<Rightarrow> (Closed, st1)
                            | Inr st2 \<Rightarrow> (Continue, st2))))
               else if action = PStr ''DOWNLOAD'' then
                 finish_transfer lib ''DOWNLOAD''
                   (send_to_reader shared_folder st
                      [(''action'', PStr ''DOWNLOAD''), (''path'', path)])
               else if action = PStr ''UPLOAD'' then
                 (let file_size = dict_get m ''size'' (PInt 0) in
                  case reply lib st [(''status'', PStr ''ready''), (''action'', PStr ''UPLOAD'')] of
                    Inl e \<Rightarrow> (Closed, st)
                  | Inr st1 \<Rightarrow>
                      (case readexactly (inbound st1) file_size of
                         (Inl e, rest) \<Rightarrow> (Closed, st1\<lparr>inbound := rest\<rparr>)
                       | (Inr file_data, rest) \<Rightarrow>
                           finish_simple lib ''UPLOAD''
                             (send_to_writer shared_folder (st1\<lparr>inbound := rest\<rparr>)
                                [(''action'', PStr ''UPLOAD''), (''path'', path),
                                 (''data'', PBytes file_data)])))
               else if action = PStr ''DELETE'' then
                 finish_simple lib ''DELETE''
                   (send_to_writer shared_folder st
                      [(''action'', PStr ''DELETE''), (''path'', path)])
               else if action = PStr ''CUT'' then
                 finish_transfer lib ''CUT''
                   (send_to_writer shared_folder st [(''action'', PStr ''CUT''), (''path'', path)])
               else
                 (case reply lib st
                         [(''status'', PStr ''error''),
                          (''message'', PStr (''Desconocido: '' @ action_text action))] of
                    Inl e \<Rightarrow> (Closed, st)
                  | Inr st' \<Rightarrow> (Continue, st')))
      | _ \<Rightarrow> (Closed, st))"

text \<open>A message never gives bytes back to the stream.\<close>

lemma async_recv_exact_length: "async_recv_exact stream n = (r, rest) \<Longrightarrow> length rest \<le> length stream"
  by (auto simp: async_recv_exact_def split: if_splits)

lemma async_recv_message_length:
  "async_recv_message lib stream = (r, rest) \<Longrightarrow> length rest \<le> length stream"
  unfolding async_recv_message_def
  by (auto simp: async_recv_exact_def split: if_splits prod.splits option.splits sum.splits)


















section \<open>The library on ASCII text\<close>

text \<open>
  An instance of the library functions, for evaluating the model: \<open>json.dumps\<close> with
  its default settings, \<open>json.loads\<close> and \<open>str\<close> on values whose text is ASCII
  and holds no floating point number. What lies outside is refused.
\<close>

definition str_int :: "int \<Rightarrow> string" where
  "str_int k = (if k < 0 then ''-'' @ str_nat (nat (- k)) else str_nat (nat k))"

definition hex4 :: "char \<Rightarrow> string" where
  "hex4 c = ''00'' @ hex2 c"

text \<open>One character of a JSON string, as \<open>json.dumps\<close> writes it.\<close>

definition json_char :: "char \<Rightarrow> string" where
  "json_char c =
     (if c = CHR 0x22 then [CHR 0x5C, CHR 0x22]
      else if c = CHR 0x5C then [CHR 0x5C, CHR 0x5C]
      else if c = CHR 0x0A then [CHR 0x5C, CHR ''n'']
      else if c = CHR 0x0D then [CHR 0x5C, CHR ''r'']
      else if c = CHR 0x09 then [CHR 0x5C, CHR ''t'']
      else if c = CHR 0x08 then [CHR 0x5C, CHR ''b'']
      else if c = CHR 0x0C then [CHR 0x5C, CHR ''f'']
      else if c < CHR 0x20 \<or> c = CHR 0x7F then [CHR 0x5C, CHR ''u''] @ hex4 c
      else [c])"

definition is_ascii :: "string \<Rightarrow> bool" where
  "is_ascii s = list_all (\<lambda>c. c < CHR 0x80) s"

definition json_string :: "string \<Rightarrow> exn + string" where
  "json_string s =
     (if is_ascii s then Inr ([CHR 0x22] @ concat (map json_char s) @ [CHR 0x22])
      else Inl ValueError)"

fun collect :: "(exn + 'a) list \<Rightarrow> exn + 'a list" where
  "collect [] = Inr []"
| "collect (Inl e # rs) = Inl e"
| "collect (Inr x # rs) = (case collect rs of Inl e \<Rightarrow> Inl e | Inr xs \<Rightarrow> Inr (x # xs))"

fun join_comma :: "string list \<Rightarrow> string" where
  "join_comma [] = []"
| "join_comma [t] = t"
| "join_comma (t # ts) = t @ '', '' @ join_comma ts"

definition json_member :: "string \<times> (exn + string) \<Rightarrow> exn + string" where
  "json_member kv =
     (case json_string (fst kv) of
        Inl e \<Rightarrow> Inl e
      | Inr k \<Rightarrow> (case snd kv of Inl e \<Rightarrow> Inl e | Inr t \<Rightarrow> Inr (k @ '': '' @ t)))"

primrec json_dumps :: "pyval \<Rightarrow> exn + string" where
  "json_dumps PNone = Inr ''null''"
| "json_dumps (PBool b) = Inr (if b then ''true'' else ''false'')"
| "json_dumps (PInt k) = Inr (str_int k)"
| "json_dumps (PStr s) = json_string s"
| "json_dumps (PBytes b) = Inl TypeError"
| "json_dumps (PList xs) =
     (case collect (map json_dumps xs) of
        Inl e \<Rightarrow> Inl e
      | Inr ts \<Rightarrow> Inr (''['' @ join_comma ts @ '']''))"
| "json_dumps (PDict kvs) =
     (case collect (map json_member (map (map_prod id json_dumps) kvs)) of
        Inl e \<Rightarrow> Inl e
      | Inr ts \<Rightarrow> Inr (''{'' @ join_comma ts @ ''}''))"

text \<open>
  The parser: white space, literals, integers, strings with escapes, arrays, objects. The
  fuel bounds the number of values read; the length of the text is enough.
\<close>

definition skip_ws :: "string \<Rightarrow> string" where
  "skip_ws s = dropWhile (\<lambda>c. c = CHR '' '' \<or> c = CHR 0x09 \<or> c = CHR 0x0A \<or> c = CHR 0x0D) s"

definition is_digit :: "char \<Rightarrow> bool" where
  "is_digit c = (CHR ''0'' \<le> c \<and> c \<le> CHR ''9'')"

definition digits_value :: "string \<Rightarrow> nat" where
  "digits_value ds = foldl (\<lambda>acc c. 10 * acc + (of_char c - 48)) 0 ds"

text \<open>An integer: an optional minus sign and digits, without a leading zero.\<close>

definition parse_int :: "string \<Rightarrow> (pyval \<times> string) option" where
  "parse_int s =
     (let neg = (s \<noteq> [] \<and> hd s = CHR ''-'');
          body = (if neg then tl s else s);
          ds = takeWhile is_digit body;
          rest = dropWhile is_digit body
      in if ds = [] \<or> (hd ds = CHR ''0'' \<and> length ds > 1) then None
         else if rest \<noteq> [] \<and> (hd rest = CHR ''.'' \<or> hd rest = CHR ''e'' \<or> hd rest = CHR ''E'')
         then None
         else Some (PInt (if neg then - int (digits_value ds) else int (digits_value ds)), rest))"

definition hex_value :: "char \<Rightarrow> nat option" where
  "hex_value c =
     (if is_digit c then Some (of_char c - 48)
      else if CHR ''a'' \<le> c \<and> c \<le> CHR ''f'' then Some (of_char c - 87)
      else if CHR ''A'' \<le> c \<and> c \<le> CHR ''F'' then Some (of_char c - 55)
      else None)"

text \<open>The characters of a string, after the opening quote and up to the closing one.\<close>

fun parse_string :: "string \<Rightarrow> string \<Rightarrow> (string \<times> string) option" where
  "parse_string acc [] = None"
| "parse_string acc [c] = (if c = CHR 0x22 then Some (rev acc, []) else None)"
| "parse_string acc (c # d # s) =
     (if c = CHR 0x22 then Some (rev acc, d # s)
      else if c = CHR 0x5C then
        (if d = CHR 0x22 \<or> d = CHR 0x5C \<or> d = CHR ''/'' then parse_string (d # acc) s
         else if d = CHR ''n'' then parse_string (CHR 0x0A # acc) s
         else if d = CHR ''r'' then parse_string (CHR 0x0D # acc) s
         else if d = CHR ''t'' then parse_string (CHR 0x09 # acc) s
         else if d = CHR ''b'' then parse_string (CHR 0x08 # acc) s
         else if d = CHR ''f'' then parse_string (CHR 0x0C # acc) s
         else if d = CHR ''u'' then
           (case map hex_value (take 4 s) of
              [Some h3, Some h2, Some h1, Some h0] \<Rightarrow>
                if h3 = 0 \<and> h2 = 0 \<and> h1 < 8
                then parse_string (char_of (16 * h1 + h0) # acc) (drop 4 s)
                else None
            | _ \<Rightarrow> None)
         else None)
      else if c < CHR 0x20 \<or> CHR 0x80 \<le> c then None
      else parse_string (c # acc) (d # s))"

text \<open>A value that is not an array or an object; the member key with its colon.\<close>

definition parse_atom :: "string \<Rightarrow> (pyval \<times> string) option" where
  "parse_atom t =
     (if t = [] then None
      else if take 4 t = ''null'' then Some (PNone, drop 4 t)
      else if take 4 t = ''true'' then Some (PBool True, drop 4 t)
      else if take 5 t = ''false'' then Some (PBool False, drop 5 t)
      else if hd t = CHR 0x22 then
        (case parse_string [] (tl t) of
           None \<Rightarrow> None
         | Some (str, rest) \<Rightarrow> Some (PStr str, rest))
      else parse_int t)"

definition parse_key :: "string \<Rightarrow> (string \<times> string) option" where
  "parse_key s =
     (let t = skip_ws s in
      if take 1 t \<noteq> [CHR 0x22] then None
      else
        (case parse_string [] (tl t) of
           None \<Rightarrow> None
         | Some (k, rest) \<Rightarrow>
             let u = skip_ws rest in
             if take 1 u \<noteq> '':'' then None else Some (k, tl u)))"

text \<open>What opens at the start of a text: an array, an object, or something else.\<close>

datatype json_start = Array string | Object string | Atom string

definition opening_of :: "string \<Rightarrow> json_start" where
  "opening_of s =
     (let t = skip_ws s in
      if take 1 t = ''['' then Array (tl t)
      else if take 1 t = ''{'' then Object (tl t)
      else Atom t)"

text \<open>What follows a value inside an array or an object: a comma, the closing bracket.\<close>

datatype follow = Comma string | Close string | Neither

definition follow_of :: "char \<Rightarrow> string \<Rightarrow> follow" where
  "follow_of closing s =
     (let t = skip_ws s in
      if take 1 t = '','' then Comma (tl t)
      else if take 1 t = [closing] then Close (tl t)
      else Neither)"

fun parse_value :: "nat \<Rightarrow> string \<Rightarrow> (pyval \<times> string) option"
  and parse_elems :: "nat \<Rightarrow> pyval list \<Rightarrow> string \<Rightarrow> (pyval \<times> string) option"
  and parse_members :: "nat \<Rightarrow> pydict \<Rightarrow> string \<Rightarrow> (pyval \<times> string) option" where
  "parse_value 0 s = None"
| "parse_value (Suc fuel) s =
     (case opening_of s of
        Atom t \<Rightarrow> parse_atom t
      | Array t \<Rightarrow>
          (case follow_of CHR '']'' t of
             Close rest \<Rightarrow> Some (PList [], rest)
           | _ \<Rightarrow> parse_elems fuel [] t)
      | Object t \<Rightarrow>
          (case follow_of CHR ''}'' t of
             Close rest \<Rightarrow> Some (PDict [], rest)
           | _ \<Rightarrow> parse_members fuel [] t))"
| "parse_elems 0 acc s = None"
| "parse_elems (Suc fuel) acc s =
     (case parse_value fuel s of
        None \<Rightarrow> None
      | Some (v, rest) \<Rightarrow>
          (case follow_of CHR '']'' rest of
             Comma t \<Rightarrow> parse_elems fuel (v # acc) t
           | Close t \<Rightarrow> Some (PList (rev (v # acc)), t)
           | Neither \<Rightarrow> None))"
| "parse_members 0 acc s = None"
| "parse_members (Suc fuel) acc s =
     (case parse_key s of
        None \<Rightarrow> None
      | Some (k, rest) \<Rightarrow>
          (case parse_value fuel rest of
             None \<Rightarrow> None
           | Some (v, rest') \<Rightarrow>
               (case follow_of CHR ''}'' rest' of
                  Comma t \<Rightarrow> parse_members fuel (dict_set acc k v) t
                | Close t \<Rightarrow> Some (PDict (dict_set acc k v), t)
                | Neither \<Rightarrow> None)))"

definition json_loads :: "string \<Rightarrow> exn + pyval" where
  "json_loads s =
     (case parse_value (Suc (length s)) s of
        None \<Rightarrow> Inl JSONDecodeError
      | Some (v, rest) \<Rightarrow> if skip_ws rest = [] then Inr v else Inl JSONDecodeError)"

text \<open>\<open>repr\<close> of a string, and \<open>str\<close> of a value.\<close>

definition repr_char :: "char \<Rightarrow> char \<Rightarrow> string" where
  "repr_char quote c =
     (if c = quote \<or> c = CHR 0x5C then [CHR 0x5C, c]
      else if c = CHR 0x09 then [CHR 0x5C, CHR ''t'']
      else if c = CHR 0x0A then [CHR 0x5C, CHR ''n'']
      else if c = CHR 0x0D then [CHR 0x5C, CHR ''r'']
      else if c < CHR 0x20 \<or> c = CHR 0x7F then [CHR 0x5C, CHR ''x''] @ hex2 c
      else [c])"

definition repr_str :: "string \<Rightarrow> string" where
  "repr_str s =
     (let quote = (if CHR 0x27 \<in> set s \<and> CHR 0x22 \<notin> set s then CHR 0x22 else CHR 0x27)
      in [quote] @ concat (map (repr_char quote) s) @ [quote])"

primrec py_repr :: "pyval \<Rightarrow> string" where
  "py_repr PNone = ''None''"
| "py_repr (PBool b) = (if b then ''True'' else ''False'')"
| "py_repr (PInt k) = str_int k"
| "py_repr (PStr s) = repr_str s"
| "py_repr (PBytes b) = repr_bytes b"
| "py_repr (PList xs) = ''['' @ join_comma (map py_repr xs) @ '']''"
| "py_repr (PDict kvs) =
     ''{'' @ join_comma (map (\<lambda>kv. repr_str (fst kv) @ '': '' @ snd kv)
                           (map (map_prod id py_repr) kvs)) @ ''}''"

definition py_str :: "pyval \<Rightarrow> string" where
  "py_str v = (case v of PStr s \<Rightarrow> s | _ \<Rightarrow> py_repr v)"

definition ascii_lib :: pylib where
  "ascii_lib = \<lparr>dumps = json_dumps, loads = json_loads, str_of = py_str\<rparr>"

section \<open>The sandbox\<close>

definition example_disk :: filesystem where
  "example_disk =
     \<lparr>nodes = [(''/srv'', Dir), (''/srv/share'', Dir), (''/srv/share/a.txt'', File ''hello''),
               (''/srv/share/docs'', Dir), (''/srv/share/docs/b.txt'', File ''xy''),
               (''/srv/share2'', Dir), (''/srv/share2/secret.txt'', File ''top'')],
      no_read = [], no_write = []\<rparr>"

lemmas path_defs =
  target_of_def sandbox_ok_def realpath_def normpath_def path_join_def lstrip_slash_def
  initial_slashes_def

text \<open>
  Claim C1: sandbox resolution accepts a path only if the canonical target is the canonical
  shared root or a descendant of it, and rejects every path that resolves outside the
  root. The code compares the two canonical paths as strings (\<open>startswith\<close>): with the
  root \<open>/srv/share\<close> the path \<open>../share2/secret.txt\<close> resolves to
  \<open>/srv/share2/secret.txt\<close>, which is outside the root, passes the check, and DOWNLOAD
  returns the content of that file.
\<close>

theorem sandbox_accepts_sibling_of_root:
  "target_of ''/srv/share'' ''../share2/secret.txt'' = ''/srv/share2/secret.txt''
   \<and> sandbox_ok ''/srv/share'' (target_of ''/srv/share'' ''../share2/secret.txt'')
   \<and> \<not> inside_root ''/srv/share'' (target_of ''/srv/share'' ''../share2/secret.txt'')
   \<and> read_file example_disk ''/srv/share'' (PStr ''../share2/secret.txt'')
       = Inr [(''status'', PStr ''ok''), (''size'', PInt 3), (''data'', PBytes ''top''),
              (''path'', PStr ''../share2/secret.txt'')]"
proof -
  have t: "target_of ''/srv/share'' ''../share2/secret.txt'' = ''/srv/share2/secret.txt''"
    by (simp add: path_defs)
  have ok: "sandbox_ok ''/srv/share'' ''/srv/share2/secret.txt''"
    by (simp add: path_defs)
  have out: "\<not> inside_root ''/srv/share'' ''/srv/share2/secret.txt''"
    by (simp add: inside_root_def path_comps_def path_defs)
  have rd: "read_file example_disk ''/srv/share'' (PStr ''../share2/secret.txt'')
       = Inr [(''status'', PStr ''ok''), (''size'', PInt 3), (''data'', PBytes ''top''),
              (''path'', PStr ''../share2/secret.txt'')]"
    by code_simp
  from t ok out rd show ?thesis by simp
qed

section \<open>Decoding a truncated frame\<close>

text \<open>
  Claim C5, as the code has it: when the peer closes before a complete frame has arrived
  (fewer than the 4 length bytes, none included, or fewer payload bytes than the length
  announces), \<open>async_recv_message\<close> returns \<open>None\<close>, the value it returns for a stream
  that ends before the first length byte. The two outcomes are not told apart.
\<close>

theorem truncated_frame_is_none:
  "(length stream < 4 \<longrightarrow> async_recv_message lib stream = (Inr PNone, []))
   \<and> (length header = 4 \<and> unpack_u32 header = Inr n \<and> length part < n
        \<longrightarrow> async_recv_message lib (header @ part) = (Inr PNone, []))"
  by (auto simp: async_recv_message_def async_recv_exact_def)

theorem truncated_frame_is_none_witness:
  "async_recv_message ascii_lib [CHR 0x00, CHR 0x00] = (Inr PNone, [])
   \<and> async_recv_message ascii_lib ([CHR 0x00, CHR 0x00, CHR 0x00, CHR 0x10] @ ''{\"name\": '')
       = (Inr PNone, [])"
proof -
  have "length [CHR 0x00, CHR 0x00 :: char] < 4" by simp
  moreover have "length [CHR 0x00, CHR 0x00, CHR 0x00, CHR 0x10 :: char] = 4
      \<and> unpack_u32 [CHR 0x00, CHR 0x00, CHR 0x00, CHR 0x10] = Inr 16
      \<and> length ''{\"name\": '' < 16"
    by (simp add: unpack_u32_def)
  ultimately show ?thesis
    using truncated_frame_is_none [of "[CHR 0x00, CHR 0x00]" ascii_lib
            "[CHR 0x00, CHR 0x00, CHR 0x00, CHR 0x10]" 16 "''{\"name\": ''"]
    by blast
qed

text \<open>
  The claim as stated fails: a stream cut after two length bytes and a stream cut in the
  payload decode to the outcome of a stream that ends before any byte.
\<close>

theorem truncated_frame_not_distinct:
  "async_recv_message ascii_lib [CHR 0x00, CHR 0x00] = async_recv_message ascii_lib []
   \<and> async_recv_message ascii_lib ([CHR 0x00, CHR 0x00, CHR 0x00, CHR 0x10] @ ''{\"name\": '')
       = async_recv_message ascii_lib []"
  by (simp add: async_recv_message_def async_recv_exact_def unpack_u32_def)

section \<open>Dispatch on the action\<close>

lemma dict_get_set_same: "dict_get (dict_set m k v) k d = v"
  by (simp add: dict_get_def dict_set_def update_conv')

lemma dict_get_set_other: "k \<noteq> k' \<Longrightarrow> dict_get (dict_set m k v) k' d = dict_get m k' d"
  by (simp add: dict_get_def dict_set_def update_conv')




section \<open>The worker boundary\<close>












section \<open>Missing fields of a command\<close>


lemma dict_get_missing: "map_of m k = None \<Longrightarrow> dict_get m k d = d"
  by (simp add: dict_get_def)

lemma upper_action_set_other: "k \<noteq> ''action'' \<Longrightarrow> upper_action (dict_set m k v) = upper_action m"
  by (simp add: upper_action_def dict_get_set_other)

lemma dict_get_set_missing: "map_of m k = None \<Longrightarrow> dict_get (dict_set m k v) k' d = dict_get m k' (if k' = k then v else d)"
  by (cases "k' = k") (simp_all add: dict_get_set_same dict_get_set_other dict_get_missing)

text \<open>
  Claim C3, as the code has it: a command without \<open>path\<close> is handled as the same
  command with the path \<open>/\<close>, a command without \<open>size\<close> as the same command with
  the size 0 (\<open>msg.get("path", "/")\<close>, \<open>msg.get("size", 0)\<close>). A command without
  \<open>action\<close> gets the \<open>error\<close> response for an unknown action, and the loop goes on.
\<close>

theorem missing_field_defaults:
  "(map_of m ''path'' = None \<longrightarrow>
      handle_command lib sh (PDict m) st
        = handle_command lib sh (PDict (dict_set m ''path'' (PStr ''/''))) st)
   \<and> (map_of m ''size'' = None \<longrightarrow>
      handle_command lib sh (PDict m) st
        = handle_command lib sh (PDict (dict_set m ''size'' (PInt 0))) st)
   \<and> (map_of m ''action'' = None
        \<and> reply lib st [(''status'', PStr ''error''), (''message'', PStr ''Desconocido: '')] = Inr st'
      \<longrightarrow> handle_command lib sh (PDict m) st = (Continue, st'))"
proof (intro conjI impI)
  assume "map_of m ''path'' = None"
  then show "handle_command lib sh (PDict m) st
        = handle_command lib sh (PDict (dict_set m ''path'' (PStr ''/''))) st"
    by (simp add: handle_command_def upper_action_set_other dict_get_set_same dict_get_set_other
          dict_get_missing Let_def cong: if_cong sum.case_cong)
next
  assume "map_of m ''size'' = None"
  then show "handle_command lib sh (PDict m) st
        = handle_command lib sh (PDict (dict_set m ''size'' (PInt 0))) st"
    by (simp add: handle_command_def upper_action_set_other dict_get_set_same dict_get_set_other
          dict_get_missing Let_def cong: if_cong sum.case_cong)
next
  assume a: "map_of m ''action'' = None
        \<and> reply lib st [(''status'', PStr ''error''), (''message'', PStr ''Desconocido: '')] = Inr st'"
  then have "upper_action m = Inr (PStr [])"
    by (simp add: upper_action_def dict_get_missing upper_def)
  with a show "handle_command lib sh (PDict m) st = (Continue, st')"
    by (simp add: handle_command_def action_text_def)
qed

definition example_session :: session where
  "example_session = \<lparr>inbound = [], outbound = [], disk = example_disk, next_id = 0\<rparr>"

lemma reply_ascii:
  assumes "json_dumps (PDict d) = Inr payload" and "length payload < 2 ^ 32"
  shows "\<exists>frame. send_message ascii_lib (PDict d) = Inr frame
           \<and> reply ascii_lib st d = Inr (st\<lparr>outbound := outbound st @ frame\<rparr>)"
  using assms by (simp add: reply_def send_message_def ascii_lib_def pack_u32_def)

lemma dumps_unknown:
  "json_dumps (PDict [(''status'', PStr ''error''), (''message'', PStr ''Desconocido: '')])
     = Inr ''{\"status\": \"error\", \"message\": \"Desconocido: \"}''"
  by code_simp

theorem missing_field_defaults_witness:
  "map_of [(''action'', PStr ''LIST'')] ''path'' = None
   \<and> handle_command ascii_lib ''/srv/share'' (PDict [(''action'', PStr ''LIST'')]) example_session
       = handle_command ascii_lib ''/srv/share''
           (PDict (dict_set [(''action'', PStr ''LIST'')] ''path'' (PStr ''/''))) example_session
   \<and> map_of [(''action'', PStr ''UPLOAD''), (''path'', PStr ''n.txt'')] ''size'' = None
   \<and> handle_command ascii_lib ''/srv/share''
         (PDict [(''action'', PStr ''UPLOAD''), (''path'', PStr ''n.txt'')]) example_session
       = handle_command ascii_lib ''/srv/share''
           (PDict (dict_set [(''action'', PStr ''UPLOAD''), (''path'', PStr ''n.txt'')]
                     ''size'' (PInt 0))) example_session
   \<and> map_of [(''path'', PStr ''/'')] ''action'' = None
   \<and> fst (handle_command ascii_lib ''/srv/share'' (PDict [(''path'', PStr ''/'')]) example_session)
       = Continue"
proof -
  obtain frame where
    r: "reply ascii_lib example_session
          [(''status'', PStr ''error''), (''message'', PStr ''Desconocido: '')]
        = Inr (example_session\<lparr>outbound := outbound example_session @ frame\<rparr>)"
    using reply_ascii [OF dumps_unknown, of example_session] by auto
  have p: "map_of [(''action'', PStr ''LIST'')] ''path'' = None" by simp
  have z: "map_of [(''action'', PStr ''UPLOAD''), (''path'', PStr ''n.txt'')] ''size'' = None"
    by simp
  have a: "map_of [(''path'', PStr ''/'')] ''action'' = None" by simp
  have "handle_command ascii_lib ''/srv/share'' (PDict [(''path'', PStr ''/'')]) example_session
          = (Continue, example_session\<lparr>outbound := outbound example_session @ frame\<rparr>)"
    using missing_field_defaults [where m = "[(''path'', PStr ''/'')]" and lib = ascii_lib
        and st = example_session
        and st' = "example_session\<lparr>outbound := outbound example_session @ frame\<rparr>"] a r
    by blast
  then have "fst (handle_command ascii_lib ''/srv/share'' (PDict [(''path'', PStr ''/'')])
                    example_session) = Continue"
    by simp
  then show ?thesis
    using p z a
      missing_field_defaults [where m = "[(''action'', PStr ''LIST'')]" and lib = ascii_lib
        and sh = "''/srv/share''" and st = example_session]
      missing_field_defaults [where m = "[(''action'', PStr ''UPLOAD''), (''path'', PStr ''n.txt'')]"
        and lib = ascii_lib and sh = "''/srv/share''" and st = example_session]
    by blast
qed

text \<open>
  The claim as stated fails: LIST without \<open>path\<close> is answered with status \<open>ok\<close> and the
  entries of the shared root, not with an \<open>error\<close> response.
\<close>

definition listing_of_root :: pydict where
  "listing_of_root =
     [(''status'', PStr ''ok''), (''action'', PStr ''LIST''),
      (''entries'', PList
         [PDict [(''name'', PStr ''a.txt''), (''is_dir'', PBool False), (''size'', PInt 5)],
          PDict [(''name'', PStr ''docs''), (''is_dir'', PBool True), (''size'', PInt 0)]]),
      (''message'', PStr [])]"

lemma dumps_listing:
  "json_dumps (PDict listing_of_root)
     = Inr ''{\"status\": \"ok\", \"action\": \"LIST\", \"entries\": [{\"name\": \"a.txt\", \"is_dir\": false, \"size\": 5}, {\"name\": \"docs\", \"is_dir\": true, \"size\": 0}], \"message\": \"\"}''"
  by code_simp

lemma reader_lists_root:
  "reader_turn example_disk ''/srv/share''
     (Some (dict_set [(''action'', PStr ''LIST''), (''path'', PStr ''/'')] ''id'' (PStr (str_nat 0))))
   = Replied [(''status'', PStr ''ok''),
       (''entries'', PList
         [PDict [(''name'', PStr ''a.txt''), (''is_dir'', PBool False), (''size'', PInt 5)],
          PDict [(''name'', PStr ''docs''), (''is_dir'', PBool True), (''size'', PInt 0)]]),
       (''id'', PStr ''0''), (''action'', PStr ''LIST'')]"
  by code_simp

theorem missing_path_lists_root:
  "fst (handle_command ascii_lib ''/srv/share'' (PDict [(''action'', PStr ''LIST'')]) example_session)
     = Continue
   \<and> send_message ascii_lib (PDict listing_of_root)
     = Inr (outbound (snd (handle_command ascii_lib ''/srv/share''
                              (PDict [(''action'', PStr ''LIST'')]) example_session)))"
proof -
  obtain frame where f: "send_message ascii_lib (PDict listing_of_root) = Inr frame"
    and r: "reply ascii_lib (example_session\<lparr>next_id := Suc 0\<rparr>) listing_of_root
              = Inr (example_session\<lparr>next_id := Suc 0, outbound := frame\<rparr>)"
    using reply_ascii [OF dumps_listing, of "example_session\<lparr>next_id := Suc 0\<rparr>"]
    by (auto simp: example_session_def)
  have u: "upper_action [(''action'', PStr ''LIST'')] = Inr (PStr ''LIST'')" by code_simp
  have "handle_command ascii_lib ''/srv/share'' (PDict [(''action'', PStr ''LIST'')]) example_session
          = (Continue, example_session\<lparr>next_id := Suc 0, outbound := frame\<rparr>)"
    using r reader_lists_root
    by (simp add: handle_command_def u dict_get_def send_to_reader_def example_session_def
          dict_item_def listing_of_root_def)
  with f show ?thesis by simp
qed


section \<open>The handshake\<close>













section \<open>Frames on the wire\<close>






















section \<open>CUT\<close>


















section \<open>A directory as the target\<close>

















end
